theory Spec2Isabelle
  imports Main
begin

section \<open>Text: the two string methods the session uses\<close>

text \<open>
  Request bodies and engine replies are Python \<open>str\<close> values. They are modelled as
  \<open>string\<close>, a character being a code point below 256; text with code points from 256
  on is outside this development.

  \<open>str.strip()\<close> without argument removes leading and trailing whitespace; below 256
  the whitespace code points are 9 to 13, 28 to 32, 133 and 160.
  \<open>str.lower()\<close> below 256 maps \<open>A\<close>..\<open>Z\<close> and 192..222 (215 excepted) to the code
  point 32 higher and leaves every other character alone.
\<close>

definition isspace :: "char \<Rightarrow> bool" where
  "isspace c = ((of_char c :: nat) \<in> set [9, 10, 11, 12, 13, 28, 29, 30, 31, 32, 133, 160])"

definition py_strip :: "string \<Rightarrow> string" where
  "py_strip s = rev (dropWhile isspace (rev (dropWhile isspace s)))"

definition lower_char :: "char \<Rightarrow> char" where
  "lower_char c =
     (let n = (of_char c :: nat)
      in if (65 \<le> n \<and> n \<le> 90) \<or> (192 \<le> n \<and> n \<le> 222 \<and> n \<noteq> 215)
         then char_of (n + 32) else c)"

definition py_lower :: "string \<Rightarrow> string" where
  "py_lower s = map lower_char s"

section \<open>The collaborators\<close>

text \<open>
  The rules library (\<open>import chess\<close>) and the engine (\<open>Stockfish\<close>) are not part of
  the repository; the session is verified for every behaviour they may show.

  A \<open>chess.Board()\<close> that is only ever changed by \<open>push\<close> is determined by its move
  stack, so a board is the list of the moves pushed so far: \<open>chess.Board()\<close> is
  \<open>[]\<close> and \<open>board.push(move)\<close> appends \<open>move\<close>. The colours are the library's
  booleans, \<open>chess.WHITE = True\<close> and \<open>chess.BLACK = False\<close>; White moves first and
  every push passes the turn on.

  The library's answers are the fields of \<open>chess_lib\<close>: \<open>from_uci\<close> is
  \<open>chess.Move.from_uci\<close>, with \<open>None\<close> where it raises its \<open>ValueError\<close>;
  \<open>legal_moves b\<close> is the set that \<open>move in board.legal_moves\<close> tests;
  the three predicates are the methods of the same names.

  The engine is the function from the board it is given (\<open>set_fen_position(board.fen())\<close>)
  to what \<open>get_best_move_time(2000)\<close> then returns: a string or \<open>None\<close>.
\<close>

abbreviation (input) WHITE :: bool where "WHITE \<equiv> True"
abbreviation (input) BLACK :: bool where "BLACK \<equiv> False"

type_synonym 'mv board = "'mv list"

definition turn :: "'mv board \<Rightarrow> bool" where
  "turn b = even (length b)"

record 'mv chess_lib =
  from_uci :: "string \<Rightarrow> 'mv option"
  legal_moves :: "'mv board \<Rightarrow> 'mv set"
  is_checkmate :: "'mv board \<Rightarrow> bool"
  is_stalemate :: "'mv board \<Rightarrow> bool"
  is_insufficient_material :: "'mv board \<Rightarrow> bool"

type_synonym 'mv stockfish = "'mv board \<Rightarrow> string option"

section \<open>The session: class \<open>ChessGame\<close>\<close>

text \<open>
  The fields of \<open>ChessGame\<close> that the methods read or write. \<open>None\<close> in \<open>board\<close> and
  \<open>user_color\<close> is Python's \<open>None\<close>, their value after \<open>__init__\<close>.
\<close>

record 'mv chess_game =
  board :: "'mv board option"
  user_color :: "bool option"
  game_started :: bool
  waiting_for_color :: bool

definition init :: "'mv chess_game" where
  "init = \<lparr>board = None, user_color = None, game_started = False, waiting_for_color = False\<rparr>"

text \<open>
  A method either returns its text or raises; what it wrote to the session before raising
  stays written, so every method yields the outcome together with the session.
\<close>

datatype exn = ValueError | AttributeError

type_synonym 'mv response = "(exn + string) \<times> 'mv chess_game"

definition start_game :: "'mv chess_game \<Rightarrow> 'mv response" where
  "start_game s =
     (Inr ''Game started. Choose engine color: black or white?'',
      s\<lparr>board := Some [], game_started := False, waiting_for_color := True\<rparr>)"

text \<open>
  \<open>_get_engine_move\<close>. \<open>if best_move:\<close> is false for \<open>None\<close> and for the empty string.
  \<open>from_uci\<close> is called outside any \<open>try\<close>, so its \<open>ValueError\<close> leaves the method.
  A session without a board has no \<open>fen\<close>: \<open>AttributeError\<close>.
\<close>

definition get_engine_move ::
  "'mv chess_lib \<Rightarrow> 'mv stockfish \<Rightarrow> 'mv chess_game \<Rightarrow> (exn + string option) \<times> 'mv chess_game" where
  "get_engine_move lib engine s =
     (case board s of
        None \<Rightarrow> (Inl AttributeError, s)
      | Some b \<Rightarrow>
          (case engine b of
             None \<Rightarrow> (Inr None, s)
           | Some best_move \<Rightarrow>
               if best_move = [] then (Inr None, s)
               else
                 (case from_uci lib best_move of
                    None \<Rightarrow> (Inl ValueError, s)
                  | Some mv \<Rightarrow>
                      if mv \<in> legal_moves lib b
                      then (Inr (Some best_move), s\<lparr>board := Some (b @ [mv])\<rparr>)
                      else (Inr None, s))))"

text \<open>\<open>if engine_move:\<close> and \<open>if not engine_move:\<close> test the returned value for truth.\<close>

definition truthy :: "string option \<Rightarrow> bool" where
  "truthy r = (case r of None \<Rightarrow> False | Some t \<Rightarrow> t \<noteq> [])"

definition str :: "string option \<Rightarrow> string" where
  "str r = (case r of None \<Rightarrow> ''None'' | Some t \<Rightarrow> t)"

definition set_color :: "'mv chess_lib \<Rightarrow> 'mv stockfish \<Rightarrow> 'mv chess_game \<Rightarrow> string \<Rightarrow> 'mv response" where
  "set_color lib engine s color_input =
     (let color_input = py_lower (py_strip color_input)
      in if color_input \<notin> set [''black'', ''white'']
         then (Inr ''Invalid color. Choose 'black' or 'white'.'', s)
         else
           let engine_color = (if color_input = ''white'' then WHITE else BLACK);
               s1 = s\<lparr>user_color := Some (\<not> engine_color),
                      game_started := True, waiting_for_color := False\<rparr>
           in if engine_color = WHITE
              then
                (case get_engine_move lib engine s1 of
                   (Inl e, s2) \<Rightarrow> (Inl e, s2)
                 | (Inr engine_move, s2) \<Rightarrow>
                     if truthy engine_move
                     then (Inr (''You are white. First move: '' @ str engine_move), s2)
                     else (Inr ''Engine error'', s2))
              else (Inr ''Engine is black. You are white. Make your move.'', s1))"

text \<open>
  \<open>make_move\<close>. The bare \<open>except\<close> turns a failed parse into the text \<open>Illegal move\<close>;
  the legality test, the push and the rest run outside the \<open>try\<close>.
\<close>

definition make_move :: "'mv chess_lib \<Rightarrow> 'mv stockfish \<Rightarrow> 'mv chess_game \<Rightarrow> string \<Rightarrow> 'mv response" where
  "make_move lib engine s move_input =
     (let move_input = py_lower (py_strip move_input)
      in case from_uci lib move_input of
           None \<Rightarrow> (Inr ''Illegal move'', s)
         | Some mv \<Rightarrow>
             (case board s of
                None \<Rightarrow> (Inl AttributeError, s)
              | Some b \<Rightarrow>
                  if mv \<notin> legal_moves lib b then (Inr ''Illegal move'', s)
                  else
                    let b1 = b @ [mv]; s1 = s\<lparr>board := Some b1\<rparr>
                    in if is_checkmate lib b1 then (Inr ''Checkmate, you win!'', s1)
                       else if is_stalemate lib b1 \<or> is_insufficient_material lib b1
                       then (Inr ''Draw'', s1)
                       else
                         (case get_engine_move lib engine s1 of
                            (Inl e, s2) \<Rightarrow> (Inl e, s2)
                          | (Inr engine_move, s2) \<Rightarrow>
                              if \<not> truthy engine_move then (Inr ''Engine error'', s2)
                              else
                                (case board s2 of
                                   None \<Rightarrow> (Inl AttributeError, s2)
                                 | Some b2 \<Rightarrow>
                                     if is_checkmate lib b2
                                     then (Inr (str engine_move @ [CHR 0x0A] @ ''Checkmate, I win!''), s2)
                                     else if is_stalemate lib b2 \<or> is_insufficient_material lib b2
                                     then (Inr (str engine_move @ [CHR 0x0A] @ ''Draw''), s2)
                                     else (Inr (str engine_move), s2)))))"

section \<open>The two routes\<close>

text \<open>\<open>/start\<close> and \<open>/move\<close>; the argument of \<open>move\<close> is the request body as text.\<close>

definition start :: "'mv chess_game \<Rightarrow> 'mv response" where
  "start game = start_game game"

definition move :: "'mv chess_lib \<Rightarrow> 'mv stockfish \<Rightarrow> 'mv chess_game \<Rightarrow> string \<Rightarrow> 'mv response" where
  "move lib engine game body =
     (let move_input = py_strip body
      in if waiting_for_color game then set_color lib engine game move_input
         else if \<not> game_started game
         then (Inr ''No game in progress. Start a game with /start'', game)
         else make_move lib engine game move_input)"

section \<open>Phases and runs\<close>

text \<open>
  The session stores no phase. \<open>move\<close> decides by the two flags what a request is, and
  that decision is the phase: a colour choice while \<open>waiting_for_color\<close>, a move while
  \<open>game_started\<close>, no game otherwise. No value of the flags stands for \<open>Finished\<close>.
\<close>

datatype phase = NotStarted | AwaitingColorChoice | InProgress | Finished

definition phase_of :: "'mv chess_game \<Rightarrow> phase" where
  "phase_of s =
     (if waiting_for_color s then AwaitingColorChoice
      else if game_started s then InProgress
      else NotStarted)"

definition humanColor :: "'mv chess_game \<Rightarrow> bool option" where
  "humanColor s = user_color s"

definition engineColor :: "'mv chess_game \<Rightarrow> bool option" where
  "engineColor s = map_option Not (user_color s)"

text \<open>
  A run is a list of requests. A request that raises is answered by the server with an
  error page and the session stays as the method left it, so the run goes on. Within a
  run the engine is one function of the board; the statements about a single request
  hold for every engine, so each request may meet another one.
\<close>

datatype request = Start | Move string

definition handle :: "'mv chess_lib \<Rightarrow> 'mv stockfish \<Rightarrow> 'mv chess_game \<Rightarrow> request \<Rightarrow> 'mv response" where
  "handle lib engine s r = (case r of Start \<Rightarrow> start s | Move body \<Rightarrow> move lib engine s body)"

fun run :: "'mv chess_lib \<Rightarrow> 'mv stockfish \<Rightarrow> 'mv chess_game \<Rightarrow> request list
              \<Rightarrow> (exn + string) list \<times> 'mv chess_game" where
  "run lib engine s [] = ([], s)"
| "run lib engine s (r # rs) =
     (case handle lib engine s r of
        (out, s1) \<Rightarrow> (case run lib engine s1 rs of (outs, s2) \<Rightarrow> (out # outs, s2)))"

section \<open>Test doubles\<close>

text \<open>
  A stand-in for the rules library, with moves as their coordinate strings. Its parser
  accepts origin square, destination square and an optional piece letter. Its rules are
  scripted: they give the legal moves of chess for the initial position, for the
  position after 1. e4, and along the line 1. f3 e5 2. g4 Qh4 mate; every other position
  is answered with no legal move and no end of game, and is not visited below.
\<close>

definition is_square :: "char \<Rightarrow> char \<Rightarrow> bool" where
  "is_square f r = (f \<in> set ''abcdefgh'' \<and> r \<in> set ''12345678'')"

fun parse_uci :: "string \<Rightarrow> string option" where
  "parse_uci [f1, r1, f2, r2] =
     (if is_square f1 r1 \<and> is_square f2 r2 then Some [f1, r1, f2, r2] else None)"
| "parse_uci [f1, r1, f2, r2, p] =
     (if is_square f1 r1 \<and> is_square f2 r2 \<and> p \<in> set ''pnbrqk''
      then Some [f1, r1, f2, r2, p] else None)"
| "parse_uci _ = None"

definition opening_white :: "string list" where
  "opening_white =
     [''a2a3'', ''a2a4'', ''b2b3'', ''b2b4'', ''c2c3'', ''c2c4'', ''d2d3'', ''d2d4'',
      ''e2e3'', ''e2e4'', ''f2f3'', ''f2f4'', ''g2g3'', ''g2g4'', ''h2h3'', ''h2h4'',
      ''b1a3'', ''b1c3'', ''g1f3'', ''g1h3'']"

definition opening_black :: "string list" where
  "opening_black =
     [''a7a6'', ''a7a5'', ''b7b6'', ''b7b5'', ''c7c6'', ''c7c5'', ''d7d6'', ''d7d5'',
      ''e7e6'', ''e7e5'', ''f7f6'', ''f7f5'', ''g7g6'', ''g7g5'', ''h7h6'', ''h7h5'',
      ''b8a6'', ''b8c6'', ''g8f6'', ''g8h6'']"

definition fools_legal :: "string board \<Rightarrow> string set" where
  "fools_legal b =
     (if b = [] then set opening_white
      else if b = [''e2e4''] \<or> b = [''f2f3''] then set opening_black
      else if b = [''f2f3'', ''e7e5'']
      then set [''a2a3'', ''a2a4'', ''b2b3'', ''b2b4'', ''c2c3'', ''c2c4'', ''d2d3'', ''d2d4'',
                ''e2e3'', ''e2e4'', ''f3f4'', ''g2g3'', ''g2g4'', ''h2h3'', ''h2h4'',
                ''b1a3'', ''b1c3'', ''g1h3'', ''e1f2'']
      else if b = [''f2f3'', ''e7e5'', ''g2g4'']
      then set [''a7a6'', ''a7a5'', ''b7b6'', ''b7b5'', ''c7c6'', ''c7c5'', ''d7d6'', ''d7d5'',
                ''e5e4'', ''f7f6'', ''f7f5'', ''g7g6'', ''g7g5'', ''h7h6'', ''h7h5'',
                ''b8a6'', ''b8c6'', ''g8f6'', ''g8h6'', ''g8e7'',
                ''f8e7'', ''f8d6'', ''f8c5'', ''f8b4'', ''f8a3'',
                ''d8e7'', ''d8f6'', ''d8g5'', ''d8h4'', ''e8e7'']
      else {})"

definition fools_lib :: "string chess_lib" where
  "fools_lib =
     \<lparr>from_uci = parse_uci,
      legal_moves = fools_legal,
      is_checkmate = (\<lambda>b. b = [''f2f3'', ''e7e5'', ''g2g4'', ''d8h4'']),
      is_stalemate = (\<lambda>b. False),
      is_insufficient_material = (\<lambda>b. False)\<rparr>"

text \<open>
  Four engines: one that plays White's side of that line, one that returns no move, one
  that returns a move that is not legal, and one that returns text that is no move.
\<close>

definition fools_engine :: "string stockfish" where
  "fools_engine b =
     (if b = [] then Some ''f2f3''
      else if b = [''f2f3'', ''e7e5''] then Some ''g2g4''
      else None)"

definition silent_engine :: "string stockfish" where
  "silent_engine b = None"

definition cheating_engine :: "string stockfish" where
  "cheating_engine b = Some ''e2e5''"

definition garbled_engine :: "string stockfish" where
  "garbled_engine b = Some ''zz''"

text \<open>
  Two sessions of the doubles: the one \<open>/start\<close> makes of the session of a new process,
  and a game under way with the human's colour and the moves pushed so far.
\<close>

definition choosing :: "string chess_game" where
  "choosing = \<lparr>board = Some [], user_color = None, game_started = False, waiting_for_color = True\<rparr>"

definition playing :: "bool \<Rightarrow> string board \<Rightarrow> string chess_game" where
  "playing human b =
     \<lparr>board = Some b, user_color = Some human, game_started = True, waiting_for_color = False\<rparr>"

section \<open>Unfolding and evaluation\<close>

lemmas session_defs =
  handle_def start_def start_game_def move_def set_color_def make_move_def
  get_engine_move_def truthy_def str_def

lemmas text_defs = py_strip_def py_lower_def lower_char_def isspace_def char_of_def bit_0

lemmas double_defs =
  fools_lib_def fools_engine_def fools_legal_def opening_white_def opening_black_def
  is_square_def silent_engine_def garbled_engine_def cheating_engine_def init_def
  choosing_def playing_def

section \<open>Trimming twice is trimming once\<close>

lemma dropWhile_rev_stripped:
  "dropWhile P (rev (dropWhile P (rev xs))) = rev (dropWhile P (rev xs))"
  if "xs = [] \<or> \<not> P (hd xs)"
proof (cases "dropWhile P (rev xs)")
  case Nil
  show ?thesis unfolding Nil by simp
next
  case (Cons y ys)
  then have "rev xs = takeWhile P (rev xs) @ y # ys"
    by (metis takeWhile_dropWhile_id)
  then have "xs = rev ys @ y # rev (takeWhile P (rev xs))"
    by (metis rev_append rev.simps(2) rev_rev_ident append.assoc append_Cons append_Nil rev_swap)
  then have "hd (rev ys @ [y]) = hd xs"
    by (metis append.assoc append_Cons append_Nil hd_append2 snoc_eq_iff_butlast)
  moreover have "xs \<noteq> []" using Cons by auto
  ultimately have "\<not> P (hd (rev ys @ [y]))" using that by simp
  then have "dropWhile P (rev ys @ [y]) = rev ys @ [y]"
    by (cases "rev ys @ [y]") auto
  then show ?thesis using Cons by simp
qed

lemma py_strip_idem: "py_strip (py_strip s) = py_strip s"
proof -
  let ?ys = "dropWhile isspace s"
  have h: "?ys = [] \<or> \<not> isspace (hd ?ys)"
    by (metis hd_dropWhile)
  have "dropWhile isspace (rev (dropWhile isspace (rev ?ys))) = rev (dropWhile isspace (rev ?ys))"
    using h by (rule dropWhile_rev_stripped)
  then show ?thesis
    by (simp add: py_strip_def dropWhile_idem)
qed

section \<open>The engine turn\<close>

lemma get_engine_move_applied:
  assumes "board s = Some b" "engine b = Some best" "best \<noteq> []"
    and "from_uci lib best = Some mv" "mv \<in> legal_moves lib b"
  shows "get_engine_move lib engine s = (Inr (Some best), s\<lparr>board := Some (b @ [mv])\<rparr>)"
  using assms by (simp add: get_engine_move_def)

lemma get_engine_move_no_move:
  assumes "board s = Some b"
    and "engine b = None \<or> engine b = Some []
         \<or> (\<exists>best mv. engine b = Some best \<and> from_uci lib best = Some mv \<and> mv \<notin> legal_moves lib b)"
  shows "get_engine_move lib engine s = (Inr None, s)"
  using assms by (auto simp: get_engine_move_def)

lemma get_engine_move_flags:
  assumes "get_engine_move lib engine s = (r, s')"
  shows "game_started s' = game_started s \<and> waiting_for_color s' = waiting_for_color s
         \<and> user_color s' = user_color s"
  using assms by (auto simp: get_engine_move_def split: option.splits if_splits)

lemma get_engine_move_board:
  assumes "get_engine_move lib engine s = (r, s')" "board s = Some b"
  shows "\<exists>rest. board s' = Some (b @ rest)"
  using assms by (auto simp: get_engine_move_def split: option.splits if_splits)

lemma make_move_flags:
  assumes "make_move lib engine s inp = (r, s')"
  shows "game_started s' = game_started s \<and> waiting_for_color s' = waiting_for_color s
         \<and> user_color s' = user_color s"
proof -
  have *: "\<And>t r' t'. get_engine_move lib engine t = (r', t') \<Longrightarrow>
     game_started t' = game_started t \<and> waiting_for_color t' = waiting_for_color t
         \<and> user_color t' = user_color t"
    by (rule get_engine_move_flags)
  show ?thesis
    using assms
    by (auto simp: make_move_def Let_def
             split: option.splits if_splits prod.splits sum.splits dest!: *)
qed

section \<open>Rejected moves\<close>

text \<open>
  C4. A call of \<open>make_move\<close> whose input does not parse, or parses to a move that is not
  among the legal moves of the current board, returns the text \<open>Illegal move\<close> and
  leaves the whole session, board and flags, as it was.
\<close>

theorem make_move_illegal:
  assumes "from_uci lib (py_lower (py_strip move_input)) = None
           \<or> (\<exists>mv b. from_uci lib (py_lower (py_strip move_input)) = Some mv
                      \<and> board s = Some b \<and> mv \<notin> legal_moves lib b)"
  shows "make_move lib engine s move_input = (Inr ''Illegal move'', s)"
  using assms by (auto simp: make_move_def)

text \<open>The move \<open>e2e5\<close> on the initial position, and text that is no move.\<close>

theorem make_move_illegal_witness:
  "(\<exists>mv b. from_uci fools_lib (py_lower (py_strip ''e2e5'')) = Some mv
        \<and> board (playing WHITE []) = Some b \<and> mv \<notin> legal_moves fools_lib b)
   \<and> make_move fools_lib fools_engine (playing WHITE []) ''e2e5''
      = (Inr ''Illegal move'', playing WHITE [])
   \<and> from_uci fools_lib (py_lower (py_strip ''castle'')) = None
   \<and> make_move fools_lib fools_engine (playing WHITE []) ''castle''
      = (Inr ''Illegal move'', playing WHITE [])"
proof -
  have h1: "\<exists>mv b. from_uci fools_lib (py_lower (py_strip ''e2e5'')) = Some mv
        \<and> board (playing WHITE []) = Some b \<and> mv \<notin> legal_moves fools_lib b"
    by (simp add: text_defs double_defs)
  have h2: "from_uci fools_lib (py_lower (py_strip ''castle'')) = None"
    by (simp add: text_defs double_defs)
  have "make_move fools_lib fools_engine (playing WHITE []) ''e2e5''
          = (Inr ''Illegal move'', playing WHITE [])"
    using h1 by (intro make_move_illegal disjI2)
  moreover have "make_move fools_lib fools_engine (playing WHITE []) ''castle''
          = (Inr ''Illegal move'', playing WHITE [])"
    using h2 by (intro make_move_illegal disjI1)
  ultimately show ?thesis using h1 h2 by blast
qed

section \<open>Text that is no colour\<close>

text \<open>
  C8. While the session waits for the colour, a \<open>/move\<close> request whose body, trimmed
  and lower-cased, is neither \<open>white\<close> nor \<open>black\<close> (a move such as \<open>e2e4\<close>
  included) is answered with the invalid-colour text, and the session is unchanged: it
  still waits for the colour and its board has no move more.
\<close>

theorem move_rejects_other_text:
  assumes "waiting_for_color s"
    and "py_lower (py_strip body) \<noteq> ''white''" and "py_lower (py_strip body) \<noteq> ''black''"
  shows "move lib engine s body = (Inr ''Invalid color. Choose 'black' or 'white'.'', s)
         \<and> phase_of s = AwaitingColorChoice"
  using assms by (simp add: move_def set_color_def py_strip_idem phase_of_def)

text \<open>The move \<open>e2e4\<close> sent before the colour.\<close>

theorem move_rejects_other_text_witness:
  "waiting_for_color choosing
   \<and> py_lower (py_strip ''e2e4'') \<noteq> ''white'' \<and> py_lower (py_strip ''e2e4'') \<noteq> ''black''
   \<and> move fools_lib fools_engine choosing ''e2e4''
        = (Inr ''Invalid color. Choose 'black' or 'white'.'', choosing)
   \<and> phase_of choosing = AwaitingColorChoice \<and> board choosing = Some []"
proof -
  have h1: "waiting_for_color choosing" by (simp add: choosing_def)
  have h2: "py_lower (py_strip ''e2e4'') \<noteq> ''white''" by (simp add: text_defs)
  have h3: "py_lower (py_strip ''e2e4'') \<noteq> ''black''" by (simp add: text_defs)
  have "move fools_lib fools_engine choosing ''e2e4''
        = (Inr ''Invalid color. Choose 'black' or 'white'.'', choosing)
        \<and> phase_of choosing = AwaitingColorChoice"
    using h1 h2 h3 by (rule move_rejects_other_text)
  moreover have "board choosing = Some []"
    by (simp add: choosing_def)
  ultimately show ?thesis using h1 h2 h3 by blast
qed

section \<open>The human's colour is never read\<close>

lemma get_engine_move_user_color:
  "get_engine_move lib engine (s\<lparr>user_color := c\<rparr>)
     = (fst (get_engine_move lib engine s), (snd (get_engine_move lib engine s))\<lparr>user_color := c\<rparr>)"
  by (simp add: get_engine_move_def split: option.splits)

lemma make_move_user_color:
  "make_move lib engine (s\<lparr>user_color := c\<rparr>) move_input
     = (fst (make_move lib engine s move_input),
        (snd (make_move lib engine s move_input))\<lparr>user_color := c\<rparr>)"
proof (cases "from_uci lib (py_lower (py_strip move_input))")
  case None
  then show ?thesis by (simp add: make_move_def)
next
  case (Some mv)
  show ?thesis
  proof (cases "board s")
    case None
    with Some show ?thesis by (simp add: make_move_def)
  next
    case (Some b)
    let ?s1 = "s\<lparr>board := Some (b @ [mv])\<rparr>"
    obtain r s2 where g: "get_engine_move lib engine ?s1 = (r, s2)"
      by (cases "get_engine_move lib engine ?s1")
    have g': "get_engine_move lib engine (s\<lparr>user_color := c, board := Some (b @ [mv])\<rparr>)
                     = (r, s2\<lparr>user_color := c\<rparr>)"
      using g by (auto simp: get_engine_move_def split: option.splits if_splits)
    show ?thesis
      using \<open>from_uci lib (py_lower (py_strip move_input)) = Some mv\<close> Some g g'
      by (auto simp: make_move_def Let_def split: sum.splits option.splits)
  qed
qed

lemma set_color_user_color:
  "\<exists>c'. set_color lib engine (s\<lparr>user_color := c\<rparr>) color_input
     = (fst (set_color lib engine s color_input),
        (snd (set_color lib engine s color_input))\<lparr>user_color := c'\<rparr>)"
proof (cases "py_lower (py_strip color_input) \<in> set [''black'', ''white'']")
  case False
  then have "set_color lib engine (s\<lparr>user_color := c\<rparr>) color_input
     = (fst (set_color lib engine s color_input),
        (snd (set_color lib engine s color_input))\<lparr>user_color := c\<rparr>)"
    by (simp add: set_color_def)
  then show ?thesis by blast
next
  case True
  then have "set_color lib engine (s\<lparr>user_color := c\<rparr>) color_input
     = set_color lib engine s color_input"
    by (auto simp: set_color_def Let_def)
  moreover have "snd (set_color lib engine s color_input)
     = (snd (set_color lib engine s color_input))
         \<lparr>user_color := user_color (snd (set_color lib engine s color_input))\<rparr>"
    by simp
  ultimately have "set_color lib engine (s\<lparr>user_color := c\<rparr>) color_input
     = (fst (set_color lib engine s color_input),
        (snd (set_color lib engine s color_input))
          \<lparr>user_color := user_color (snd (set_color lib engine s color_input))\<rparr>)"
    by simp
  then show ?thesis by blast
qed

lemma handle_user_color:
  "\<exists>c'. handle lib engine (s\<lparr>user_color := c\<rparr>) r
     = (fst (handle lib engine s r), (snd (handle lib engine s r))\<lparr>user_color := c'\<rparr>)"
proof (cases r)
  case Start
  have "handle lib engine (s\<lparr>user_color := c\<rparr>) Start
     = (fst (handle lib engine s Start), (snd (handle lib engine s Start))\<lparr>user_color := c\<rparr>)"
    by (simp add: handle_def start_def start_game_def)
  then show ?thesis unfolding Start by blast
next
  case (Move body)
  show ?thesis
  proof (cases "waiting_for_color s")
    case True
    then show ?thesis
      using set_color_user_color[where lib = lib and engine = engine and s = s and c = c
          and color_input = "py_strip body"]
      by (simp add: Move handle_def move_def)
  next
    case False
    have "handle lib engine (s\<lparr>user_color := c\<rparr>) r
     = (fst (handle lib engine s r), (snd (handle lib engine s r))\<lparr>user_color := c\<rparr>)"
      using False by (simp add: Move handle_def move_def make_move_user_color)
    then show ?thesis by blast
  qed
qed

lemma run_user_color:
  "\<exists>c'. run lib engine (s\<lparr>user_color := c\<rparr>) rs
     = (fst (run lib engine s rs), (snd (run lib engine s rs))\<lparr>user_color := c'\<rparr>)"
proof (induction rs arbitrary: s c)
  case Nil
  have "run lib engine (s\<lparr>user_color := c\<rparr>) []
     = (fst (run lib engine s []), (snd (run lib engine s []))\<lparr>user_color := c\<rparr>)"
    by simp
  then show ?case by blast
next
  case (Cons r rs)
  obtain out s1 where h: "handle lib engine s r = (out, s1)"
    by (cases "handle lib engine s r")
  obtain c1 where h': "handle lib engine (s\<lparr>user_color := c\<rparr>) r = (out, s1\<lparr>user_color := c1\<rparr>)"
    using handle_user_color[where lib = lib and engine = engine and s = s and c = c and r = r] h
    by auto
  obtain c2 where "run lib engine (s1\<lparr>user_color := c1\<rparr>) rs
     = (fst (run lib engine s1 rs), (snd (run lib engine s1 rs))\<lparr>user_color := c2\<rparr>)"
    using Cons.IH by blast
  then have "run lib engine (s\<lparr>user_color := c\<rparr>) (r # rs)
     = (fst (run lib engine s (r # rs)), (snd (run lib engine s (r # rs)))\<lparr>user_color := c2\<rparr>)"
    using h h' by (simp split: prod.splits)
  then show ?case by blast
qed

lemma start_differs_in_user_color:
  fixes s t :: "'mv chess_game"
  shows "snd (start t) = (snd (start s))\<lparr>user_color := user_color t\<rparr>"
  by (cases s, cases t) (simp add: start_def start_game_def)

section \<open>Starting\<close>

text \<open>
  C9. \<open>start\<close> always returns, whatever the session was: it answers with the prompt,
  the board is the initial position and the session waits for the colour. Starting again
  changes nothing more. From any two prior sessions the answer, the board and the phase
  are the same, and so is every answer of any run that follows (the two sessions can
  differ in the stale \<open>user_color\<close> only, which no method reads).
\<close>

theorem start_fresh_session:
  fixes s t :: "'mv chess_game"
  shows "start s = start_game s
   \<and> start s = (Inr ''Game started. Choose engine color: black or white?'',
              s\<lparr>board := Some [], game_started := False, waiting_for_color := True\<rparr>)
   \<and> board (snd (start s)) = Some []
   \<and> phase_of (snd (start s)) = AwaitingColorChoice
   \<and> start (snd (start s)) = start s
   \<and> fst (start t) = fst (start s)
   \<and> board (snd (start t)) = board (snd (start s))
   \<and> phase_of (snd (start t)) = phase_of (snd (start s))
   \<and> fst (run lib engine (snd (start t)) rs) = fst (run lib engine (snd (start s)) rs)"
proof -
  have "fst (run lib engine (snd (start t)) rs) = fst (run lib engine (snd (start s)) rs)"
    using run_user_color[where lib = lib and engine = engine and s = "snd (start s)"
        and c = "user_color t" and rs = rs]
    by (auto simp: start_differs_in_user_color[where t = t and s = s])
  moreover have "start (snd (start s)) = start s"
    by (simp add: start_def start_game_def)
  ultimately show ?thesis
    by (simp add: start_def start_game_def phase_of_def)
qed

text \<open>Starting from a new process and starting over a finished game.\<close>

theorem start_fresh_session_witness:
  "start (init :: string chess_game)
     = (Inr ''Game started. Choose engine color: black or white?'', choosing)
   \<and> start (playing BLACK [''f2f3'', ''e7e5'', ''g2g4'', ''d8h4''])
     = (Inr ''Game started. Choose engine color: black or white?'',
        \<lparr>board = Some [], user_color = Some BLACK, game_started = False,
          waiting_for_color = True\<rparr>)
   \<and> phase_of (snd (start (playing BLACK [''f2f3'', ''e7e5'', ''g2g4'', ''d8h4''])))
     = AwaitingColorChoice"
proof -
  note A = start_fresh_session[where s = "init :: string chess_game" and t = init
      and lib = fools_lib and engine = fools_engine and rs = "[]"]
  note B = start_fresh_session[where s = "playing BLACK [''f2f3'', ''e7e5'', ''g2g4'', ''d8h4'']"
      and t = init and lib = fools_lib and engine = fools_engine and rs = "[]"]
  have "start (init :: string chess_game)
     = (Inr ''Game started. Choose engine color: black or white?'',
        init\<lparr>board := Some [], game_started := False, waiting_for_color := True\<rparr>)"
    using A by blast
  then have 1: "start (init :: string chess_game)
     = (Inr ''Game started. Choose engine color: black or white?'', choosing)"
    by (simp add: init_def choosing_def)
  have "start (playing BLACK [''f2f3'', ''e7e5'', ''g2g4'', ''d8h4''])
     = (Inr ''Game started. Choose engine color: black or white?'',
        (playing BLACK [''f2f3'', ''e7e5'', ''g2g4'', ''d8h4''])
          \<lparr>board := Some [], game_started := False, waiting_for_color := True\<rparr>)"
    using B by blast
  then have 2: "start (playing BLACK [''f2f3'', ''e7e5'', ''g2g4'', ''d8h4''])
     = (Inr ''Game started. Choose engine color: black or white?'',
        \<lparr>board = Some [], user_color = Some BLACK, game_started = False,
          waiting_for_color = True\<rparr>)"
    by (simp add: playing_def)
  have 3: "phase_of (snd (start (playing BLACK [''f2f3'', ''e7e5'', ''g2g4'', ''d8h4''])))
     = AwaitingColorChoice"
    using B by blast
  from 1 2 3 show ?thesis by blast
qed

section \<open>The sessions of the doubles are reached\<close>

lemma reached_sessions:
  "snd (run fools_lib fools_engine init [Start]) = choosing"
  "snd (run fools_lib fools_engine init [Start, Move ''black'']) = playing WHITE []"
  "snd (run fools_lib silent_engine init [Start, Move ''white'']) = playing BLACK []"
  "snd (run fools_lib silent_engine init [Start, Move ''black'', Move ''e2e4''])
     = playing WHITE [''e2e4'']"
  "snd (run fools_lib fools_engine init [Start, Move ''white'', Move ''e7e5''])
     = playing BLACK [''f2f3'', ''e7e5'', ''g2g4'']"
  "snd (run fools_lib fools_engine init [Start, Move ''white'', Move ''e7e5'', Move ''d8h4''])
     = playing BLACK [''f2f3'', ''e7e5'', ''g2g4'', ''d8h4'']"
  by (simp_all add: session_defs text_defs double_defs)

section \<open>Moves for either side\<close>

text \<open>
  C10. \<open>make_move\<close> never compares the side to move with the human's colour: an input
  that parses to a legal move of the current board is pushed, whichever side it moves,
  and the call does the same whatever \<open>user_color\<close> holds. So after a failed engine
  turn the caller can play the engine's pieces.
\<close>

theorem make_move_any_side:
  assumes "board s = Some b"
    and "from_uci lib (py_lower (py_strip move_input)) = Some mv"
    and "mv \<in> legal_moves lib b"
  shows "(\<exists>rest. board (snd (make_move lib engine s move_input)) = Some (b @ mv # rest))
       \<and> make_move lib engine (s\<lparr>user_color := c\<rparr>) move_input
           = (fst (make_move lib engine s move_input),
              (snd (make_move lib engine s move_input))\<lparr>user_color := c\<rparr>)"
proof -
  let ?s1 = "s\<lparr>board := Some (b @ [mv])\<rparr>"
  obtain r s2 where g: "get_engine_move lib engine ?s1 = (r, s2)"
    by (cases "get_engine_move lib engine ?s1")
  have b1: "board ?s1 = Some (b @ [mv])" by simp
  from get_engine_move_board[OF g b1] obtain rest where rest: "board s2 = Some ((b @ [mv]) @ rest)"
    by blast
  have "\<exists>rest. board (snd (make_move lib engine s move_input)) = Some (b @ mv # rest)"
    using assms g rest by (auto simp: make_move_def Let_def split: sum.splits)
  then show ?thesis
    by (simp add: make_move_user_color)
qed

text \<open>
  The human is White, has played \<open>e2e4\<close> and the engine has not answered: the caller
  plays Black's \<open>e7e5\<close>. The engine is White and has not opened: the caller plays
  White's \<open>e2e4\<close>.
\<close>

theorem make_move_any_side_witness:
  "board (playing WHITE [''e2e4'']) = Some [''e2e4'']
   \<and> from_uci fools_lib (py_lower (py_strip ''e7e5'')) = Some ''e7e5''
   \<and> ''e7e5'' \<in> legal_moves fools_lib [''e2e4'']
   \<and> turn [''e2e4''] = BLACK
   \<and> make_move fools_lib silent_engine (playing WHITE [''e2e4'']) ''e7e5''
        = (Inr ''Engine error'', playing WHITE [''e2e4'', ''e7e5''])
   \<and> board (playing BLACK []) = Some []
   \<and> from_uci fools_lib (py_lower (py_strip ''e2e4'')) = Some ''e2e4''
   \<and> ''e2e4'' \<in> legal_moves fools_lib []
   \<and> turn ([] :: string list) = WHITE
   \<and> make_move fools_lib silent_engine (playing BLACK []) ''e2e4''
        = (Inr ''Engine error'', playing BLACK [''e2e4''])"
proof -
  have a1: "board (playing WHITE [''e2e4'']) = Some [''e2e4'']" by (simp add: playing_def)
  have a2: "from_uci fools_lib (py_lower (py_strip ''e7e5'')) = Some ''e7e5''"
    by (simp add: text_defs double_defs)
  have a3: "''e7e5'' \<in> legal_moves fools_lib [''e2e4'']" by (simp add: double_defs)
  have b1: "board (playing BLACK []) = Some []" by (simp add: playing_def)
  have b2: "from_uci fools_lib (py_lower (py_strip ''e2e4'')) = Some ''e2e4''"
    by (simp add: text_defs double_defs)
  have b3: "''e2e4'' \<in> legal_moves fools_lib []" by (simp add: double_defs)
  note A = make_move_any_side[OF a1 a2 a3, where engine = silent_engine and c = "Some WHITE"]
  note B = make_move_any_side[OF b1 b2 b3, where engine = silent_engine and c = "Some BLACK"]
  have A': "make_move fools_lib silent_engine (playing WHITE [''e2e4'']) ''e7e5''
        = (Inr ''Engine error'', playing WHITE [''e2e4'', ''e7e5''])"
    using A by (simp add: session_defs text_defs double_defs)
  have B': "make_move fools_lib silent_engine (playing BLACK []) ''e2e4''
        = (Inr ''Engine error'', playing BLACK [''e2e4''])"
    using B by (simp add: session_defs text_defs double_defs)
  have "turn [''e2e4''] = BLACK" "turn ([] :: string list) = WHITE" by (simp_all add: turn_def)
  with a1 a2 a3 b1 b2 b3 A' B' show ?thesis by blast
qed

section \<open>The human's move ends the game\<close>

text \<open>
  C3, as the code has it. When the human's legal move leaves a position that is checkmate,
  \<open>make_move\<close> returns \<open>Checkmate, you win!\<close>; when it is not checkmate but stalemate
  or insufficient material, it returns \<open>Draw\<close>. In both cases the text is returned at
  once: the result does not depend on the engine, and the board holds the human's move
  and nothing more. The flags are not written, so the session stays in progress; there
  is no finished phase.
\<close>

theorem make_move_ends_game:
  assumes "board s = Some b"
    and "from_uci lib (py_lower (py_strip move_input)) = Some mv"
    and "mv \<in> legal_moves lib b"
    and "is_checkmate lib (b @ [mv]) \<or> is_stalemate lib (b @ [mv])
         \<or> is_insufficient_material lib (b @ [mv])"
  shows "make_move lib engine s move_input
           = (Inr (if is_checkmate lib (b @ [mv]) then ''Checkmate, you win!'' else ''Draw''),
              s\<lparr>board := Some (b @ [mv])\<rparr>)
         \<and> phase_of (s\<lparr>board := Some (b @ [mv])\<rparr>) = phase_of s"
  using assms by (auto simp: make_move_def Let_def phase_of_def)

text \<open>Black's \<open>d8h4\<close> after 1. f3 e5 2. g4.\<close>

theorem make_move_ends_game_witness:
  "board (playing BLACK [''f2f3'', ''e7e5'', ''g2g4'']) = Some [''f2f3'', ''e7e5'', ''g2g4'']
   \<and> from_uci fools_lib (py_lower (py_strip ''d8h4'')) = Some ''d8h4''
   \<and> ''d8h4'' \<in> legal_moves fools_lib [''f2f3'', ''e7e5'', ''g2g4'']
   \<and> is_checkmate fools_lib ([''f2f3'', ''e7e5'', ''g2g4''] @ [''d8h4''])
   \<and> make_move fools_lib fools_engine (playing BLACK [''f2f3'', ''e7e5'', ''g2g4'']) ''d8h4''
        = (Inr ''Checkmate, you win!'', playing BLACK [''f2f3'', ''e7e5'', ''g2g4'', ''d8h4''])
   \<and> phase_of (playing BLACK [''f2f3'', ''e7e5'', ''g2g4'', ''d8h4'']) = InProgress"
proof -
  let ?b = "[''f2f3'', ''e7e5'', ''g2g4'']"
  have a1: "board (playing BLACK ?b) = Some ?b" by (simp add: playing_def)
  have a2: "from_uci fools_lib (py_lower (py_strip ''d8h4'')) = Some ''d8h4''"
    by (simp add: text_defs double_defs)
  have a3: "''d8h4'' \<in> legal_moves fools_lib ?b" by (simp add: double_defs)
  have a4: "is_checkmate fools_lib (?b @ [''d8h4''])" by (simp add: double_defs)
  have a4': "is_checkmate fools_lib (?b @ [''d8h4'']) \<or> is_stalemate fools_lib (?b @ [''d8h4''])
         \<or> is_insufficient_material fools_lib (?b @ [''d8h4''])"
    using a4 by (rule disjI1)
  note A = make_move_ends_game[OF a1 a2 a3 a4', where engine = fools_engine]
  have A': "make_move fools_lib fools_engine (playing BLACK ?b) ''d8h4''
        = (Inr ''Checkmate, you win!'', playing BLACK [''f2f3'', ''e7e5'', ''g2g4'', ''d8h4''])"
    using A a4 by (simp add: playing_def)
  have "phase_of (playing BLACK [''f2f3'', ''e7e5'', ''g2g4'', ''d8h4'']) = InProgress"
    by (simp add: phase_of_def playing_def)
  with a1 a2 a3 a4 A' show ?thesis by blast
qed

text \<open>
  The claim as stated fails: after the checkmate is reported the two flags are as
  before, \<open>game_started\<close> set and \<open>waiting_for_color\<close> clear, so the session is still
  in progress.
\<close>

theorem checkmate_not_finished:
  "run fools_lib fools_engine init [Start, Move ''white'', Move ''e7e5'', Move ''d8h4'']
     = ([Inr ''Game started. Choose engine color: black or white?'',
         Inr ''You are white. First move: f2f3'',
         Inr ''g2g4'',
         Inr ''Checkmate, you win!''],
        \<lparr>board = Some [''f2f3'', ''e7e5'', ''g2g4'', ''d8h4''], user_color = Some BLACK,
          game_started = True, waiting_for_color = False\<rparr>)
   \<and> phase_of (snd (run fools_lib fools_engine init
                       [Start, Move ''white'', Move ''e7e5'', Move ''d8h4''])) = InProgress"
  by (simp add: session_defs text_defs double_defs phase_of_def)

section \<open>Choosing the colour\<close>

lemma lower_strip_white: "py_lower (py_strip ''white'') = ''white''"
  by (simp add: text_defs)

lemma lower_strip_black: "py_lower (py_strip ''black'') = ''black''"
  by (simp add: text_defs)

lemma set_color_black:
  assumes "py_lower (py_strip color_input) = ''black''"
  shows "set_color lib engine s color_input
           = (Inr ''Engine is black. You are white. Make your move.'',
              s\<lparr>user_color := Some WHITE, game_started := True, waiting_for_color := False\<rparr>)"
  using assms by (simp add: set_color_def)

lemma set_color_white_applied:
  assumes "py_lower (py_strip color_input) = ''white''"
    and "board s = Some b" "engine b = Some best" "best \<noteq> []"
    and "from_uci lib best = Some mv" "mv \<in> legal_moves lib b"
  shows "set_color lib engine s color_input
           = (Inr (''You are white. First move: '' @ best),
              s\<lparr>user_color := Some BLACK, game_started := True, waiting_for_color := False,
                board := Some (b @ [mv])\<rparr>)"
proof -
  let ?s1 = "s\<lparr>user_color := Some BLACK, game_started := True, waiting_for_color := False\<rparr>"
  have "board ?s1 = Some b" using assms(2) by simp
  then have "get_engine_move lib engine ?s1 = (Inr (Some best), ?s1\<lparr>board := Some (b @ [mv])\<rparr>)"
    using assms(3-6) by (rule get_engine_move_applied)
  then show ?thesis using assms(1,4) by (simp add: set_color_def truthy_def str_def)
qed

lemma set_color_white_no_move:
  assumes "py_lower (py_strip color_input) = ''white''"
    and "board s = Some b"
    and "engine b = None \<or> engine b = Some []
         \<or> (\<exists>best mv. engine b = Some best \<and> from_uci lib best = Some mv \<and> mv \<notin> legal_moves lib b)"
  shows "set_color lib engine s color_input
           = (Inr ''Engine error'',
              s\<lparr>user_color := Some BLACK, game_started := True, waiting_for_color := False\<rparr>)"
proof -
  let ?s1 = "s\<lparr>user_color := Some BLACK, game_started := True, waiting_for_color := False\<rparr>"
  have "board ?s1 = Some b" using assms(2) by simp
  then have "get_engine_move lib engine ?s1 = (Inr None, ?s1)"
    using assms(3) by (rule get_engine_move_no_move)
  then show ?thesis using assms(1) by (simp add: set_color_def truthy_def)
qed

lemma set_color_flags:
  assumes "py_lower (py_strip color_input) = ''white'' \<or> py_lower (py_strip color_input) = ''black''"
    and "set_color lib engine s color_input = (r, s')"
  shows "user_color s' = Some (py_lower (py_strip color_input) \<noteq> ''white'')
         \<and> game_started s' \<and> \<not> waiting_for_color s'"
proof -
  let ?s1 = "s\<lparr>user_color := Some BLACK, game_started := True, waiting_for_color := False\<rparr>"
  obtain g s2 where g: "get_engine_move lib engine ?s1 = (g, s2)"
    by (cases "get_engine_move lib engine ?s1")
  from get_engine_move_flags[OF g] show ?thesis
    using assms g by (auto simp: set_color_def Let_def split: sum.splits if_splits)
qed

text \<open>
  C1, as the code has it. A call of \<open>set_color\<close> on a session with a board, with text
  that trimmed and lower-cased is \<open>white\<close> or \<open>black\<close>, makes the engine's colour the
  one asked for and the human's colour the other, and leaves the session in progress.
  For \<open>black\<close> no engine move is made and the answer says that the human is White.
  For \<open>white\<close>, when the engine returns a non-empty string that parses to a legal
  move, exactly that one move is pushed before the answer, and the answer ends with
  the engine's string.
\<close>

theorem set_color_chosen:
  assumes "py_lower (py_strip color_input) = ''white'' \<or> py_lower (py_strip color_input) = ''black''"
    and "board s = Some b"
    and "set_color lib engine s color_input = (r, s')"
  shows "engineColor s' = Some (py_lower (py_strip color_input) = ''white'')
       \<and> humanColor s' = Some (py_lower (py_strip color_input) \<noteq> ''white'')
       \<and> phase_of s' = InProgress
       \<and> (py_lower (py_strip color_input) = ''black'' \<longrightarrow>
            r = Inr ''Engine is black. You are white. Make your move.'' \<and> board s' = Some b)
       \<and> (py_lower (py_strip color_input) = ''white'' \<and> engine b = Some best \<and> best \<noteq> []
            \<and> from_uci lib best = Some mv \<and> mv \<in> legal_moves lib b \<longrightarrow>
            r = Inr (''You are white. First move: '' @ best) \<and> board s' = Some (b @ [mv]))"
proof -
  have f: "user_color s' = Some (py_lower (py_strip color_input) \<noteq> ''white'')
         \<and> game_started s' \<and> \<not> waiting_for_color s'"
    using assms(1,3) by (rule set_color_flags)
  have 1: "py_lower (py_strip color_input) = ''black'' \<longrightarrow>
            r = Inr ''Engine is black. You are white. Make your move.'' \<and> board s' = Some b"
    using assms(2,3) by (auto simp: set_color_black)
  have 2: "py_lower (py_strip color_input) = ''white'' \<and> engine b = Some best \<and> best \<noteq> []
            \<and> from_uci lib best = Some mv \<and> mv \<in> legal_moves lib b \<longrightarrow>
            r = Inr (''You are white. First move: '' @ best) \<and> board s' = Some (b @ [mv])"
    using assms(2,3) by (auto simp: set_color_white_applied)
  from f 1 2 show ?thesis
    by (simp add: engineColor_def humanColor_def phase_of_def)
qed

text \<open>The texts \<open>White\<close> between blanks and \<open>BLACK\<close>, sent after \<open>/start\<close>.\<close>

theorem set_color_chosen_witness:
  "py_lower (py_strip '' White '') = ''white''
   \<and> board choosing = Some []
   \<and> fools_engine [] = Some ''f2f3'' \<and> from_uci fools_lib ''f2f3'' = Some ''f2f3''
   \<and> ''f2f3'' \<in> legal_moves fools_lib []
   \<and> set_color fools_lib fools_engine choosing '' White ''
        = (Inr ''You are white. First move: f2f3'', playing BLACK [''f2f3''])
   \<and> engineColor (playing BLACK [''f2f3'']) = Some WHITE
   \<and> humanColor (playing BLACK [''f2f3'']) = Some BLACK
   \<and> phase_of (playing BLACK [''f2f3'']) = InProgress
   \<and> py_lower (py_strip ''BLACK'') = ''black''
   \<and> set_color fools_lib fools_engine choosing ''BLACK''
        = (Inr ''Engine is black. You are white. Make your move.'', playing WHITE [])
   \<and> engineColor (playing WHITE []) = Some BLACK
   \<and> humanColor (playing WHITE []) = Some WHITE
   \<and> phase_of (playing WHITE []) = InProgress"
proof -
  have w: "py_lower (py_strip '' White '') = ''white''" by (simp add: text_defs)
  have k: "py_lower (py_strip ''BLACK'') = ''black''" by (simp add: text_defs)
  have b: "board choosing = Some []" by (simp add: choosing_def)
  have e: "fools_engine [] = Some ''f2f3''" "from_uci fools_lib ''f2f3'' = Some ''f2f3''"
    "''f2f3'' \<in> legal_moves fools_lib []"
    by (simp_all add: double_defs)
  have rw: "set_color fools_lib fools_engine choosing '' White ''
        = (Inr ''You are white. First move: f2f3'', playing BLACK [''f2f3''])"
    by (simp add: session_defs text_defs double_defs)
  have rk: "set_color fools_lib fools_engine choosing ''BLACK''
        = (Inr ''Engine is black. You are white. Make your move.'', playing WHITE [])"
    by (simp add: session_defs text_defs double_defs)
  note W = set_color_chosen[OF disjI1[OF w] b rw, where best = "''f2f3''" and mv = "''f2f3''"]
  note K = set_color_chosen[OF disjI2[OF k] b rk, where best = "''f2f3''" and mv = "''f2f3''"]
  have "engineColor (playing BLACK [''f2f3'']) = Some WHITE
   \<and> humanColor (playing BLACK [''f2f3'']) = Some BLACK
   \<and> phase_of (playing BLACK [''f2f3'']) = InProgress"
    using W w by simp
  moreover have "engineColor (playing WHITE []) = Some BLACK
   \<and> humanColor (playing WHITE []) = Some WHITE
   \<and> phase_of (playing WHITE []) = InProgress"
    using K k by simp
  ultimately show ?thesis using w k b e rw rk by blast
qed

text \<open>
  The claim as stated fails where the engine returns no move: the engine is White, no
  move is pushed and the answer holds no move.
\<close>

theorem engine_white_without_move:
  "set_color fools_lib silent_engine
     \<lparr>board = Some [], user_color = None, game_started = False, waiting_for_color = True\<rparr>
     ''white''
   = (Inr ''Engine error'',
      \<lparr>board = Some [], user_color = Some BLACK, game_started = True, waiting_for_color = False\<rparr>)"
  by (simp add: session_defs text_defs double_defs)

text \<open>
  C2, as the code has it: the text names the engine's colour. After \<open>start\<close> the text
  \<open>black\<close> makes the engine Black and the human White, the answer says that the human
  is White, and the board is the initial position. After \<open>start\<close> the text \<open>white\<close>
  makes the engine White; when the engine returns a non-empty string that parses to a
  legal move of the initial position, the answer ends with that string, the board holds
  that one move, and Black, the human, is to move.
\<close>

theorem start_then_color:
  "set_color lib engine (snd (start s)) ''black''
     = (Inr ''Engine is black. You are white. Make your move.'',
        s\<lparr>board := Some [], user_color := Some WHITE, game_started := True,
          waiting_for_color := False\<rparr>)
   \<and> engineColor (snd (set_color lib engine (snd (start s)) ''black'')) = Some BLACK
   \<and> humanColor (snd (set_color lib engine (snd (start s)) ''black'')) = Some WHITE
   \<and> (engine [] = Some best \<and> best \<noteq> [] \<and> from_uci lib best = Some mv
        \<and> mv \<in> legal_moves lib [] \<longrightarrow>
        set_color lib engine (snd (start s)) ''white''
          = (Inr (''You are white. First move: '' @ best),
             s\<lparr>board := Some [mv], user_color := Some BLACK, game_started := True,
               waiting_for_color := False\<rparr>)
        \<and> engineColor (snd (set_color lib engine (snd (start s)) ''white'')) = Some WHITE
        \<and> humanColor (snd (set_color lib engine (snd (start s)) ''white'')) = Some BLACK
        \<and> length [mv] = 1 \<and> turn [mv] = BLACK)"
proof -
  have b: "board (snd (start s)) = Some []" by (simp add: start_def start_game_def)
  have 1: "set_color lib engine (snd (start s)) ''black''
     = (Inr ''Engine is black. You are white. Make your move.'',
        s\<lparr>board := Some [], user_color := Some WHITE, game_started := True,
          waiting_for_color := False\<rparr>)"
    by (simp add: set_color_black[OF lower_strip_black] start_def start_game_def)
  have 2: "set_color lib engine (snd (start s)) ''white''
          = (Inr (''You are white. First move: '' @ best),
             s\<lparr>board := Some [mv], user_color := Some BLACK, game_started := True,
               waiting_for_color := False\<rparr>)"
    if "engine [] = Some best" "best \<noteq> []" "from_uci lib best = Some mv" "mv \<in> legal_moves lib []"
    using set_color_white_applied[where engine = engine and b = "[]" and lib = lib
        and best = best and mv = mv, OF lower_strip_white b that]
    by (simp add: start_def start_game_def)
  show ?thesis
    using 1 2 by (auto simp: engineColor_def humanColor_def turn_def)
qed

text \<open>The engine opens with \<open>f2f3\<close>.\<close>

theorem start_then_color_witness:
  "fools_engine [] = Some ''f2f3'' \<and> ''f2f3'' \<noteq> [] \<and> from_uci fools_lib ''f2f3'' = Some ''f2f3''
   \<and> ''f2f3'' \<in> legal_moves fools_lib []
   \<and> set_color fools_lib fools_engine (snd (start init)) ''white''
        = (Inr ''You are white. First move: f2f3'', playing BLACK [''f2f3''])
   \<and> turn [''f2f3''] = BLACK
   \<and> set_color fools_lib fools_engine (snd (start init)) ''black''
        = (Inr ''Engine is black. You are white. Make your move.'', playing WHITE [])"
proof -
  have e: "fools_engine [] = Some ''f2f3''" "''f2f3'' \<noteq> []"
    "from_uci fools_lib ''f2f3'' = Some ''f2f3''" "''f2f3'' \<in> legal_moves fools_lib []"
    by (simp_all add: double_defs)
  note T = start_then_color[where lib = fools_lib and engine = fools_engine and s = init
      and best = "''f2f3''" and mv = "''f2f3''"]
  have 1: "set_color fools_lib fools_engine (snd (start init)) ''white''
        = (Inr ''You are white. First move: f2f3'', playing BLACK [''f2f3''])"
    using T e by (simp add: init_def playing_def)
  have 2: "set_color fools_lib fools_engine (snd (start init)) ''black''
        = (Inr ''Engine is black. You are white. Make your move.'', playing WHITE [])"
    using T by (simp add: init_def playing_def)
  have 3: "turn [''f2f3''] = BLACK" using T e by simp
  from e 1 2 3 show ?thesis by blast
qed

text \<open>
  The claim as stated fails: after \<open>start\<close> the text \<open>white\<close> makes the human Black
  and has the engine move, and the text \<open>black\<close> makes the human White with no move
  made.
\<close>

theorem chosen_color_is_the_engines:
  "run fools_lib fools_engine init [Start, Move ''white'']
     = ([Inr ''Game started. Choose engine color: black or white?'',
         Inr ''You are white. First move: f2f3''],
        \<lparr>board = Some [''f2f3''], user_color = Some BLACK,
          game_started = True, waiting_for_color = False\<rparr>)
   \<and> run fools_lib fools_engine init [Start, Move ''black'']
     = ([Inr ''Game started. Choose engine color: black or white?'',
         Inr ''Engine is black. You are white. Make your move.''],
        \<lparr>board = Some [], user_color = Some WHITE,
          game_started = True, waiting_for_color = False\<rparr>)"
  by (simp add: session_defs text_defs double_defs)

section \<open>The engine's reply is not a move\<close>

text \<open>
  C5 fails on the code. The engine returns \<open>zz\<close>, which does not parse: the parse is
  outside any \<open>try\<close>, so \<open>_get_engine_move\<close> raises, and so does the request that
  asked for the engine's turn, be it the colour choice or a move of the human; the
  human's move, if any, stays pushed.
\<close>

theorem engine_turn_raises:
  "get_engine_move fools_lib garbled_engine
     \<lparr>board = Some [], user_color = Some BLACK, game_started = True, waiting_for_color = False\<rparr>
   = (Inl ValueError,
      \<lparr>board = Some [], user_color = Some BLACK, game_started = True, waiting_for_color = False\<rparr>)
   \<and> run fools_lib garbled_engine init [Start, Move ''white'']
   = ([Inr ''Game started. Choose engine color: black or white?'', Inl ValueError],
      \<lparr>board = Some [], user_color = Some BLACK, game_started = True, waiting_for_color = False\<rparr>)
   \<and> run fools_lib garbled_engine init [Start, Move ''black'', Move ''e2e4'']
   = ([Inr ''Game started. Choose engine color: black or white?'',
       Inr ''Engine is black. You are white. Make your move.'', Inl ValueError],
      \<lparr>board = Some [''e2e4''], user_color = Some WHITE, game_started = True,
        waiting_for_color = False\<rparr>)"
  by (simp add: session_defs text_defs double_defs)

section \<open>The phases\<close>

text \<open>
  C6, as the code has it. The phase the flags stand for is never \<open>Finished\<close>.
  \<open>start\<close> leads to the colour choice from every session. A \<open>/move\<close> request with
  no game is answered with the no-game text and changes nothing; while the colour is
  awaited it is handled by \<open>set_color\<close> and leads to a game in progress for \<open>white\<close>
  or \<open>black\<close> and leaves the phase alone otherwise; in a game in progress it is
  handled by \<open>make_move\<close> and the game stays in progress, also after the end of the
  game has been reported.
\<close>

theorem phase_transitions:
  "phase_of (snd (start s)) = AwaitingColorChoice
   \<and> phase_of s \<noteq> Finished
   \<and> (phase_of s = NotStarted \<longrightarrow>
        move lib engine s body = (Inr ''No game in progress. Start a game with /start'', s))
   \<and> (phase_of s = AwaitingColorChoice \<longrightarrow>
        move lib engine s body = set_color lib engine s (py_strip body)
        \<and> phase_of (snd (move lib engine s body))
            = (if py_lower (py_strip body) = ''white'' \<or> py_lower (py_strip body) = ''black''
               then InProgress else AwaitingColorChoice))
   \<and> (phase_of s = InProgress \<longrightarrow>
        move lib engine s body = make_move lib engine s (py_strip body)
        \<and> phase_of (snd (move lib engine s body)) = InProgress)"
proof -
  have 1: "phase_of (snd (start s)) = AwaitingColorChoice" "phase_of s \<noteq> Finished"
    by (simp_all add: start_def start_game_def phase_of_def)
  have 2: "move lib engine s body = (Inr ''No game in progress. Start a game with /start'', s)"
    if "phase_of s = NotStarted"
    using that by (simp add: move_def phase_of_def split: if_splits)
  have 3: "move lib engine s body = set_color lib engine s (py_strip body)"
    if "phase_of s = AwaitingColorChoice"
    using that by (simp add: move_def phase_of_def split: if_splits)
  have 4: "phase_of (snd (set_color lib engine s (py_strip body)))
            = (if py_lower (py_strip body) = ''white'' \<or> py_lower (py_strip body) = ''black''
               then InProgress else AwaitingColorChoice)"
    if "phase_of s = AwaitingColorChoice"
  proof (cases "py_lower (py_strip body) = ''white'' \<or> py_lower (py_strip body) = ''black''")
    case True
    then have "py_lower (py_strip (py_strip body)) = ''white'' \<or> py_lower (py_strip (py_strip body)) = ''black''"
      by (simp add: py_strip_idem)
    from set_color_flags[OF this, of lib engine s] True show ?thesis
      by (cases "set_color lib engine s (py_strip body)") (simp add: phase_of_def)
  next
    case False
    then show ?thesis
      using that by (simp add: set_color_def py_strip_idem)
  qed
  have 5: "move lib engine s body = make_move lib engine s (py_strip body)"
    if "phase_of s = InProgress"
    using that by (simp add: move_def phase_of_def split: if_splits)
  have 6: "phase_of (snd (make_move lib engine s (py_strip body))) = InProgress"
    if "phase_of s = InProgress"
    using that make_move_flags[of lib engine s "py_strip body"]
    by (cases "make_move lib engine s (py_strip body)") (simp add: phase_of_def split: if_splits)
  show ?thesis using 1 2 3 4 5 6 by simp
qed

text \<open>A new process, a session awaiting the colour, and the game after the mate.\<close>

theorem phase_transitions_witness:
  "phase_of (init :: string chess_game) = NotStarted
   \<and> move fools_lib fools_engine init ''e2e4''
        = (Inr ''No game in progress. Start a game with /start'', init)
   \<and> phase_of choosing = AwaitingColorChoice
   \<and> move fools_lib fools_engine choosing ''white''
        = set_color fools_lib fools_engine choosing (py_strip ''white'')
   \<and> phase_of (snd (move fools_lib fools_engine choosing ''white'')) = InProgress
   \<and> phase_of (snd (move fools_lib fools_engine choosing ''e2e4'')) = AwaitingColorChoice
   \<and> phase_of (playing BLACK [''f2f3'', ''e7e5'', ''g2g4'', ''d8h4'']) = InProgress
   \<and> move fools_lib fools_engine (playing BLACK [''f2f3'', ''e7e5'', ''g2g4'', ''d8h4'']) ''e2e4''
        = make_move fools_lib fools_engine
            (playing BLACK [''f2f3'', ''e7e5'', ''g2g4'', ''d8h4'']) (py_strip ''e2e4'')
   \<and> phase_of (snd (move fools_lib fools_engine
                       (playing BLACK [''f2f3'', ''e7e5'', ''g2g4'', ''d8h4'']) ''e2e4''))
        = InProgress"
proof -
  let ?mate = "playing BLACK [''f2f3'', ''e7e5'', ''g2g4'', ''d8h4'']"
  have p1: "phase_of (init :: string chess_game) = NotStarted"
    by (simp add: phase_of_def init_def)
  have p2: "phase_of choosing = AwaitingColorChoice"
    by (simp add: phase_of_def choosing_def)
  have p3: "phase_of ?mate = InProgress"
    by (simp add: phase_of_def playing_def)
  have w: "py_lower (py_strip ''white'') = ''white''" 
    and m: "py_lower (py_strip ''e2e4'') = ''e2e4''"
    by (simp_all add: text_defs)
  note N = phase_transitions[where lib = fools_lib and engine = fools_engine
      and s = "init :: string chess_game" and body = "''e2e4''"]
  note A = phase_transitions[where lib = fools_lib and engine = fools_engine
      and s = choosing and body = "''white''"]
  note A' = phase_transitions[where lib = fools_lib and engine = fools_engine
      and s = choosing and body = "''e2e4''"]
  note P = phase_transitions[where lib = fools_lib and engine = fools_engine
      and s = ?mate and body = "''e2e4''"]
  have 1: "move fools_lib fools_engine init ''e2e4''
        = (Inr ''No game in progress. Start a game with /start'', init)"
    using N p1 by blast
  have 2: "move fools_lib fools_engine choosing ''white''
        = set_color fools_lib fools_engine choosing (py_strip ''white'')"
    using A p2 by blast
  have "phase_of (snd (move fools_lib fools_engine choosing ''white''))
          = (if py_lower (py_strip ''white'') = ''white'' \<or> py_lower (py_strip ''white'') = ''black''
             then InProgress else AwaitingColorChoice)"
    using A p2 by blast
  then have 3: "phase_of (snd (move fools_lib fools_engine choosing ''white'')) = InProgress"
    by (simp only: w simp_thms if_True)
  have "phase_of (snd (move fools_lib fools_engine choosing ''e2e4''))
          = (if py_lower (py_strip ''e2e4'') = ''white'' \<or> py_lower (py_strip ''e2e4'') = ''black''
             then InProgress else AwaitingColorChoice)"
    using A' p2 by blast
  then have 4: "phase_of (snd (move fools_lib fools_engine choosing ''e2e4'')) = AwaitingColorChoice"
    unfolding m by simp
  have 5: "move fools_lib fools_engine ?mate ''e2e4''
        = make_move fools_lib fools_engine ?mate (py_strip ''e2e4'')"
    using P p3 by blast
  have 6: "phase_of (snd (move fools_lib fools_engine ?mate ''e2e4'')) = InProgress"
    using P p3 by blast
  from p1 p2 p3 1 2 3 4 5 6 show ?thesis by blast
qed

text \<open>
  The claim as stated fails: after the checkmate has been reported and with no
  \<open>/start\<close> in between, the next \<open>/move\<close> request is handled by \<open>make_move\<close>, which
  answers \<open>Illegal move\<close>.
\<close>

theorem move_after_checkmate:
  "run fools_lib fools_engine init
     [Start, Move ''white'', Move ''e7e5'', Move ''d8h4'', Move ''e2e4'']
     = ([Inr ''Game started. Choose engine color: black or white?'',
         Inr ''You are white. First move: f2f3'',
         Inr ''g2g4'',
         Inr ''Checkmate, you win!'',
         Inr ''Illegal move''],
        \<lparr>board = Some [''f2f3'', ''e7e5'', ''g2g4'', ''d8h4''], user_color = Some BLACK,
          game_started = True, waiting_for_color = False\<rparr>)
   \<and> move fools_lib fools_engine
        \<lparr>board = Some [''f2f3'', ''e7e5'', ''g2g4'', ''d8h4''], user_color = Some BLACK,
          game_started = True, waiting_for_color = False\<rparr> ''e2e4''
     = make_move fools_lib fools_engine
        \<lparr>board = Some [''f2f3'', ''e7e5'', ''g2g4'', ''d8h4''], user_color = Some BLACK,
          game_started = True, waiting_for_color = False\<rparr> ''e2e4''"
  by (simp add: session_defs text_defs double_defs)

section \<open>The engine fails to open\<close>

text \<open>
  C7, as the code has it. When the text is \<open>white\<close> and the engine returns nothing,
  the empty string, or a string that parses to a move that is not legal, \<open>set_color\<close>
  returns \<open>Engine error\<close>; the session is in progress with the human Black and the
  board as it was. Every later \<open>/move\<close> request, a colour included, is then handled
  by \<open>make_move\<close>.
\<close>

theorem set_color_engine_failure:
  assumes "py_lower (py_strip color_input) = ''white''"
    and "board s = Some b"
    and "engine b = None \<or> engine b = Some []
         \<or> (\<exists>best mv. engine b = Some best \<and> from_uci lib best = Some mv
                        \<and> mv \<notin> legal_moves lib b)"
    and "s' = s\<lparr>user_color := Some BLACK, game_started := True, waiting_for_color := False\<rparr>"
  shows "set_color lib engine s color_input = (Inr ''Engine error'', s')
       \<and> phase_of s' = InProgress
       \<and> board s' = Some b
       \<and> move lib engine' s' body = make_move lib engine' s' (py_strip body)"
proof -
  have "set_color lib engine s color_input = (Inr ''Engine error'', s')"
    unfolding assms(4) using assms(1-3) by (rule set_color_white_no_move)
  then show ?thesis
    using assms(2,4) by (simp add: phase_of_def move_def)
qed

text \<open>An engine that returns nothing, and one that returns \<open>e2e5\<close>.\<close>

theorem set_color_engine_failure_witness:
  "py_lower (py_strip ''white'') = ''white''
   \<and> board choosing = Some []
   \<and> silent_engine [] = None
   \<and> playing BLACK [] = choosing\<lparr>user_color := Some BLACK, game_started := True,
                                   waiting_for_color := False\<rparr>
   \<and> set_color fools_lib silent_engine choosing ''white'' = (Inr ''Engine error'', playing BLACK [])
   \<and> phase_of (playing BLACK []) = InProgress
   \<and> move fools_lib fools_engine (playing BLACK []) ''white''
       = make_move fools_lib fools_engine (playing BLACK []) (py_strip ''white'')
   \<and> cheating_engine [] = Some ''e2e5'' \<and> from_uci fools_lib ''e2e5'' = Some ''e2e5''
   \<and> ''e2e5'' \<notin> legal_moves fools_lib []
   \<and> set_color fools_lib cheating_engine choosing ''white'' = (Inr ''Engine error'', playing BLACK [])"
proof -
  have w: "py_lower (py_strip ''white'') = ''white''" by (simp add: text_defs)
  have b: "board choosing = Some []" by (simp add: choosing_def)
  have e: "silent_engine [] = None" by (simp add: silent_engine_def)
  have c: "cheating_engine [] = Some ''e2e5''" "from_uci fools_lib ''e2e5'' = Some ''e2e5''"
    "''e2e5'' \<notin> legal_moves fools_lib []"
    by (simp_all add: double_defs)
  have s': "playing BLACK [] = choosing\<lparr>user_color := Some BLACK, game_started := True,
                                   waiting_for_color := False\<rparr>"
    by (simp add: playing_def choosing_def)
  have f1: "silent_engine [] = None \<or> silent_engine [] = Some []
         \<or> (\<exists>best mv. silent_engine [] = Some best \<and> from_uci fools_lib best = Some mv
                        \<and> mv \<notin> legal_moves fools_lib [])"
    using e by (rule disjI1)
  have f2: "cheating_engine [] = None \<or> cheating_engine [] = Some []
         \<or> (\<exists>best mv. cheating_engine [] = Some best \<and> from_uci fools_lib best = Some mv
                        \<and> mv \<notin> legal_moves fools_lib [])"
    using c by blast
  note S = set_color_engine_failure[where engine = silent_engine and lib = fools_lib
      and engine' = fools_engine and body = "''white''", OF w b f1 s']
  note C = set_color_engine_failure[where engine = cheating_engine and lib = fools_lib
      and engine' = fools_engine and body = "''white''", OF w b f2 s']
  from S C w b e c s' show ?thesis by blast
qed

text \<open>
  The claim as stated fails: after the engine has failed to open, the colour sent again
  is taken for a move and answered \<open>Illegal move\<close>, though the engine asked now would
  move; the board stays empty.
\<close>

theorem color_retry_is_a_move:
  "set_color fools_lib silent_engine
     \<lparr>board = Some [], user_color = None, game_started = False, waiting_for_color = True\<rparr>
     ''white''
   = (Inr ''Engine error'',
      \<lparr>board = Some [], user_color = Some BLACK, game_started = True, waiting_for_color = False\<rparr>)
   \<and> move fools_lib fools_engine
     \<lparr>board = Some [], user_color = Some BLACK, game_started = True, waiting_for_color = False\<rparr>
     ''white''
   = (Inr ''Illegal move'',
      \<lparr>board = Some [], user_color = Some BLACK, game_started = True, waiting_for_color = False\<rparr>)"
  by (simp add: session_defs text_defs double_defs)

end
